theory Spec2Isabelle
  imports Complex_Main "HOL-Library.Multiset" "HOL-Library.Word"
begin

section \<open>Errors\<close>

text \<open>
  The Python exceptions the modelled functions can raise. A function that may raise
  returns \<open>error + 'a\<close>, with \<open>Inl\<close> for the exception.
\<close>

datatype error = ValueError | IndexError | TypeError

section \<open>Sparse matrix objects and the object store\<close>

text \<open>
  A \<open>scipy.sparse\<close> matrix object: its storage format, its shape and its content. The
  content is kept as the list of its rows (what \<open>todense()\<close> shows), since every property
  below is about the entries \<open>R[u, m]\<close> and the shape, never about the compressed storage.
  For a COO object the content at \<open>(i, j)\<close> is the sum of the entries stored at \<open>(i, j)\<close>,
  which is what \<open>tocsr()\<close> materialises.
\<close>

datatype sformat = COO | CSR | CSC

record 'a spmatrix =
  format :: sformat
  nrows :: nat
  ncols :: nat
  dense :: "'a list list"

definition wf_matrix :: "'a spmatrix \<Rightarrow> bool" where
  "wf_matrix M \<longleftrightarrow>
     length (dense M) = nrows M \<and> list_all (\<lambda>r. length r = ncols M) (dense M)"

definition row_of :: "'a spmatrix \<Rightarrow> nat \<Rightarrow> 'a list" where
  "row_of M u = dense M ! u"

definition col_of :: "'a spmatrix \<Rightarrow> nat \<Rightarrow> 'a list" where
  "col_of M m = map (\<lambda>r. r ! m) (dense M)"

definition entry :: "'a spmatrix \<Rightarrow> nat \<Rightarrow> nat \<Rightarrow> 'a" where
  "entry M u m = dense M ! u ! m"

text \<open>
  Matrix objects live in a store; a Python variable holds a reference. The store is the
  list of the objects allocated so far, a reference is a position in it, and allocation
  appends. No operation below ever overwrites a position.
\<close>

type_synonym ref = nat
type_synonym 'a heap = "'a spmatrix list"

definition alloc :: "'a spmatrix \<Rightarrow> 'a heap \<Rightarrow> ref \<times> 'a heap" where
  "alloc M h = (length h, h @ [M])"

text \<open>What a call returned, read from the store it left: the exception, or the object.\<close>

fun deref :: "(error + ref) \<times> 'a heap \<Rightarrow> error + 'a spmatrix" where
  "deref (Inl e, h) = Inl e"
| "deref (Inr x, h) = Inr (h ! x)"

section \<open>The library operations the program calls\<close>

text \<open>
  \<open>sparse.coo_matrix((data, (row, col)))\<close>: the shape is inferred as
  \<open>(max(row) + 1, max(col) + 1)\<close>; empty index arrays and negative indices raise
  \<open>ValueError\<close>.
\<close>

definition coo_matrix ::
  "'a::comm_monoid_add list \<Rightarrow> int list \<Rightarrow> int list \<Rightarrow> 'a heap \<Rightarrow> (error + ref) \<times> 'a heap" where
  "coo_matrix data row col h =
     (if row = [] \<or> col = [] then (Inl ValueError, h)
      else
        let M = Max (set row) + 1; N = Max (set col) + 1 in
        if M < 0 \<or> N < 0 then (Inl ValueError, h)
        else if Min (set row) < 0 \<or> Min (set col) < 0 then (Inl ValueError, h)
        else
          let (c, h') = alloc
            \<lparr>format = COO, nrows = nat M, ncols = nat N,
             dense = map (\<lambda>u. map (\<lambda>m.
                 sum_list (map (\<lambda>(i, j, v). v)
                   (filter (\<lambda>(i, j, v). i = int u \<and> j = int m) (zip row (zip col data)))))
               [0..<nat N]) [0..<nat M]\<rparr> h
          in (Inr c, h'))"

text \<open>
  \<open>A.tocsr()\<close> and \<open>A.tocsc()\<close>: the object itself when it already has the format,
  a new object with the same shape and content otherwise.
\<close>

definition tocsr :: "ref \<Rightarrow> 'a heap \<Rightarrow> ref \<times> 'a heap" where
  "tocsr r h = (if format (h ! r) = CSR then (r, h) else alloc ((h ! r)\<lparr>format := CSR\<rparr>) h)"

definition tocsc :: "ref \<Rightarrow> 'a heap \<Rightarrow> ref \<times> 'a heap" where
  "tocsc r h = (if format (h ! r) = CSC then (r, h) else alloc ((h ! r)\<lparr>format := CSC\<rparr>) h)"

text \<open>
  The validation of an index array against an axis of length \<open>n\<close>: an index \<open>\<ge> n\<close> or
  \<open>< -n\<close> raises \<open>IndexError\<close>; a negative index within range counts from the end.
\<close>

definition asindices :: "int list \<Rightarrow> nat \<Rightarrow> error + nat list" where
  "asindices idx n =
     (if idx = [] then Inr []
      else if Max (set idx) \<ge> int n then Inl IndexError
      else if Min (set idx) < - int n then Inl IndexError
      else Inr (map (\<lambda>x. nat (if x < 0 then x + int n else x)) idx))"

text \<open>
  \<open>A[idx]\<close> (rows gathered in the order of \<open>idx\<close>) and \<open>A[:, idx]\<close> (columns gathered
  in the order of \<open>idx\<close>), for an integer array \<open>idx\<close>. The result is a new object of the
  format of \<open>A\<close>; a COO object is not subscriptable.
\<close>

definition getitem_rows :: "ref \<Rightarrow> int list \<Rightarrow> 'a heap \<Rightarrow> (error + ref) \<times> 'a heap" where
  "getitem_rows r idx h =
     (let A = h ! r in
      if format A = COO then (Inl TypeError, h)
      else (case asindices idx (nrows A) of
          Inl e \<Rightarrow> (Inl e, h)
        | Inr is \<Rightarrow>
            (let (x, h') = alloc
               \<lparr>format = format A, nrows = length is, ncols = ncols A,
                dense = map (\<lambda>i. dense A ! i) is\<rparr> h
             in (Inr x, h'))))"

definition getitem_cols :: "ref \<Rightarrow> int list \<Rightarrow> 'a heap \<Rightarrow> (error + ref) \<times> 'a heap" where
  "getitem_cols r idx h =
     (let A = h ! r in
      if format A = COO then (Inl TypeError, h)
      else (case asindices idx (ncols A) of
          Inl e \<Rightarrow> (Inl e, h)
        | Inr js \<Rightarrow>
            (let (x, h') = alloc
               \<lparr>format = format A, nrows = nrows A, ncols = length js,
                dense = map (\<lambda>row. map (\<lambda>j. row ! j) js) (dense A)\<rparr> h
             in (Inr x, h'))))"

text \<open>\<open>A.transpose()\<close>: a new object; CSR becomes CSC and back.\<close>

definition transpose_sp :: "ref \<Rightarrow> 'a heap \<Rightarrow> ref \<times> 'a heap" where
  "transpose_sp r h =
     (let A = h ! r in
      alloc
        \<lparr>format = (case format A of CSR \<Rightarrow> CSC | CSC \<Rightarrow> CSR | COO \<Rightarrow> COO),
         nrows = ncols A, ncols = nrows A,
         dense = map (\<lambda>j. map (\<lambda>row. row ! j) (dense A)) [0..<ncols A]\<rparr> h)"

text \<open>
  \<open>sparse.hstack((A, B))\<close>: the blocks side by side, row for row, as a new COO object;
  blocks of different row counts raise \<open>ValueError\<close>.
\<close>

definition hstack :: "ref \<Rightarrow> ref \<Rightarrow> 'a heap \<Rightarrow> (error + ref) \<times> 'a heap" where
  "hstack a b h =
     (let A = h ! a; B = h ! b in
      if nrows A \<noteq> nrows B then (Inl ValueError, h)
      else
        let (x, h') = alloc
          \<lparr>format = COO, nrows = nrows A, ncols = ncols A + ncols B,
           dense = map2 (@) (dense A) (dense B)\<rparr> h
        in (Inr x, h'))"

section \<open>The program: \<open>randomforest.py\<close>\<close>

subsection \<open>\<open>build_rating_matrix\<close>\<close>

text \<open>
  The argument is one numpy array of shape \<open>[n_triplets, 3]\<close>, so its three columns (user
  id, movie id, rating) share one element type. It is an array of 64-bit signed integers
  when every rating is an integer, and an array of floats as soon as one rating is not;
  the ids are then floats too. A float array is given by the real numbers its elements
  stand for; they are never inspected.
\<close>

datatype ndarray =
    Int64Array "(64 word \<times> 64 word \<times> 64 word) list"
  | Float64Array "(real \<times> real \<times> real) list"

text \<open>
  \<open>sparse.coo_matrix((data, (row, col)))\<close> on float index arrays: empty arrays raise
  \<open>ValueError\<close> as above, and otherwise inferring the shape raises \<open>TypeError\<close>, since
  a float is not an index.
\<close>

definition coo_matrix_float ::
  "'f list \<Rightarrow> 'f list \<Rightarrow> 'f list \<Rightarrow> 'a heap \<Rightarrow> (error + ref) \<times> 'a heap" where
  "coo_matrix_float data row col h =
     (if row = [] \<or> col = [] then (Inl ValueError, h) else (Inl TypeError, h))"

text \<open>
  On an integer array the index columns are passed as the integers they hold (\<open>sint\<close>);
  the ratings stay 64-bit integers, whose addition wraps around.
\<close>

definition build_rating_matrix ::
  "ndarray \<Rightarrow> 64 word heap \<Rightarrow> (error + ref) \<times> 64 word heap" where
  "build_rating_matrix user_movie_rating_triplets h =
     (case user_movie_rating_triplets of
        Int64Array ts \<Rightarrow>
          (let rows = map (sint \<circ> fst) ts;
               cols = map (sint \<circ> fst \<circ> snd) ts;
               training_ratings = map (snd \<circ> snd) ts
           in (case coo_matrix training_ratings rows cols h of
                 (Inl e, h1) \<Rightarrow> (Inl e, h1)
               | (Inr c, h1) \<Rightarrow> (let (R, h2) = tocsr c h1 in (Inr R, h2))))
      | Float64Array ts \<Rightarrow>
          (let rows = map fst ts;
               cols = map (fst \<circ> snd) ts;
               training_ratings = map (snd \<circ> snd) ts
           in (case coo_matrix_float training_ratings rows cols h of
                 (Inl e, h1) \<Rightarrow> (Inl e, h1)
               | (Inr c, h1) \<Rightarrow> (let (R, h2) = tocsr c h1 in (Inr R, h2)))))"

subsection \<open>\<open>create_learning_matrices\<close>\<close>

text \<open>
  \<open>rating_matrix\<close> is a reference to a matrix object of the store; \<open>user_movie_pairs\<close> is an
  array of shape \<open>[n_predictions, 2]\<close>, a list of pairs (user id, movie id).
\<close>

definition create_learning_matrices ::
  "ref \<Rightarrow> (int \<times> int) list \<Rightarrow> 'a heap \<Rightarrow> (error + ref) \<times> 'a heap" where
  "create_learning_matrices rating_matrix user_movie_pairs h =
     (let (rating_matrix1, h1) = tocsr rating_matrix h in
      (case getitem_rows rating_matrix1 (map fst user_movie_pairs) h1 of
         (Inl e, h2) \<Rightarrow> (Inl e, h2)
       | (Inr user_features, h2) \<Rightarrow>
           (let (rating_matrix2, h3) = tocsc rating_matrix1 h2 in
            (case getitem_cols rating_matrix2 (map snd user_movie_pairs) h3 of
               (Inl e, h4) \<Rightarrow> (Inl e, h4)
             | (Inr movie_columns, h4) \<Rightarrow>
                 (let (movie_features, h5) = transpose_sp movie_columns h4 in
                  (case hstack user_features movie_features h5 of
                     (Inl e, h6) \<Rightarrow> (Inl e, h6)
                   | (Inr X, h6) \<Rightarrow> (let (res, h7) = tocsr X h6 in (Inr res, h7))))))))"

subsection \<open>\<open>make_submission\<close>\<close>

text \<open>
  \<open>'{:d}'.format(i)\<close>: the decimal digits of an integer, with a minus sign when negative.
\<close>

function str_nat :: "nat \<Rightarrow> string" where
  "str_nat n =
     (if n < 10 then [''0123456789'' ! n]
      else str_nat (n div 10) @ [''0123456789'' ! (n mod 10)])"
  by pat_completeness auto
termination
  by (relation "measure id") auto

declare str_nat.simps [simp del]

definition format_d :: "int \<Rightarrow> string" where
  "format_d i = (if i < 0 then CHR ''-'' # str_nat (nat (- i)) else str_nat (nat i))"

text \<open>
  The predictions are floating-point numbers. Their type is left open: \<open>isnan\<close> stands for
  \<open>np.isnan\<close> and \<open>str\<close> for the text \<open>'{}'.format\<close> gives a prediction. The file system
  is a map from paths to contents, and \<open>now\<close> is what
  \<open>time.strftime('%d-%m-%Y_%Hh%M')\<close> returns.
\<close>

type_synonym files = "string \<rightharpoonup> string"

definition header :: string where
  "header = [CHR 0x22] @ ''USER_ID_MOVIE_ID'' @ [CHR 0x22] @ '','' @ [CHR 0x22] @
     ''PREDICTED_RATING'' @ [CHR 0x22] @ [CHR 0x0A]"

text \<open>\<open>'{:d}_{:d},{}\n'.format(user_id, movie_id, prediction)\<close>\<close>

definition format_line :: "('p \<Rightarrow> string) \<Rightarrow> (int \<times> int) \<times> 'p \<Rightarrow> string" where
  "format_line str = (\<lambda>((user_id, movie_id), prediction).
     format_d user_id @ ''_'' @ format_d movie_id @ '','' @ str prediction @ [CHR 0x0A])"

text \<open>
  The loop over \<open>zip(user_movie_ids, y_predict)\<close>; \<open>written\<close> is what has been written to
  the handle so far. It stops at the first not-a-number prediction, with the exception.
\<close>

fun write_predictions ::
  "('p \<Rightarrow> bool) \<Rightarrow> ('p \<Rightarrow> string) \<Rightarrow> ((int \<times> int) \<times> 'p) list \<Rightarrow> string
     \<Rightarrow> (error + unit) \<times> string" where
  "write_predictions isnan str [] written = (Inr (), written)"
| "write_predictions isnan str (x # rest) written =
     (if isnan (snd x) then (Inl ValueError, written)
      else write_predictions isnan str rest (written @ format_line str x))"

text \<open>
  The file is opened for writing (created, or emptied) before anything is written, and
  the \<open>with\<close> block closes it on both exits, so what was written is in the file whether the
  call returns or raises.
\<close>

definition make_submission ::
  "('p \<Rightarrow> bool) \<Rightarrow> ('p \<Rightarrow> string) \<Rightarrow> string \<Rightarrow>
   'p list \<Rightarrow> (int \<times> int) list \<Rightarrow> string \<Rightarrow> bool \<Rightarrow> files \<Rightarrow> (error + string) \<times> files" where
  "make_submission isnan str now y_predict user_movie_ids file_name date fs =
     (let file_name1 = (if date then file_name @ ''_'' @ now else file_name);
          file_name2 = file_name1 @ ''.txt''
      in (case write_predictions isnan str (zip user_movie_ids y_predict) header of
            (Inl e, written) \<Rightarrow> (Inl e, fs(file_name2 \<mapsto> written))
          | (Inr u, written) \<Rightarrow> (Inr file_name2, fs(file_name2 \<mapsto> written))))"

section \<open>Notions used to state the properties\<close>

text \<open>The sum of the ratings of all the triplets of a (user, movie) pair.\<close>

definition rating_sum :: "('i \<times> 'i \<times> 'a::comm_monoid_add) list \<Rightarrow> 'i \<Rightarrow> 'i \<Rightarrow> 'a" where
  "rating_sum ts u m =
     sum_list (map (\<lambda>(i, j, v). v) (filter (\<lambda>(i, j, v). i = u \<and> j = m) ts))"

text \<open>
  The matrix \<open>create_learning_matrices\<close> leaves in the store, as a function of the content
  of the rating matrix (lemma \<open>create_learning_matrices_deref\<close> below).
\<close>

definition learning_matrix_of :: "'a spmatrix \<Rightarrow> (int \<times> int) list \<Rightarrow> error + 'a spmatrix" where
  "learning_matrix_of R pairs =
     (case asindices (map fst pairs) (nrows R) of
        Inl e \<Rightarrow> Inl e
      | Inr us \<Rightarrow>
          (case asindices (map snd pairs) (ncols R) of
             Inl e \<Rightarrow> Inl e
           | Inr ms \<Rightarrow>
               Inr \<lparr>format = CSR, nrows = length pairs, ncols = ncols R + nrows R,
                    dense = map2 (\<lambda>u m. row_of R u @ col_of R m) us ms\<rparr>))"

text \<open>
  Concrete inputs for the examples below. Triplets of an integer array are triplets of
  64-bit integers; \<open>float_triplets\<close> is the float array of the single triplet
  \<open>(0, 1, 3.5)\<close>. A stored rating matrix is the 2 by 2 matrix \<open>[[5, 0], [0, 3]]\<close>. An
  example prediction is a pair of a flag (it is not-a-number) and its text, read with
  \<open>isnan = fst\<close> and \<open>str = snd\<close>.
\<close>

definition example_triplets :: "(64 word \<times> 64 word \<times> 64 word) list" where
  "example_triplets = [(0, 0, 5), (1, 1, 3)]"

definition example_pairs :: "(int \<times> int) list" where
  "example_pairs = [(0, 1), (1, 0)]"

definition duplicate_triplets :: "(64 word \<times> 64 word \<times> 64 word) list" where
  "duplicate_triplets = [(0, 0, 1), (0, 0, 2)]"

definition example_store :: "int heap" where
  "example_store = [\<lparr>format = CSR, nrows = 2, ncols = 2, dense = [[5, 0], [0, 3]]\<rparr>]"

definition negative_pairs :: "(int \<times> int) list" where
  "negative_pairs = [(- 1, 0)]"

definition out_of_range_pairs :: "(int \<times> int) list" where
  "out_of_range_pairs = [(0, 1), (2, 0)]"

definition example_rating_store :: "64 word heap" where
  "example_rating_store =
     [\<lparr>format = COO, nrows = 2, ncols = 2, dense = [[5, 0], [0, 3]]\<rparr>,
      \<lparr>format = CSR, nrows = 2, ncols = 2, dense = [[5, 0], [0, 3]]\<rparr>]"

definition overflow_triplets :: "(64 word \<times> 64 word \<times> 64 word) list" where
  "overflow_triplets = [(0, 0, 2 ^ 62), (0, 0, 2 ^ 62)]"

definition float_triplets :: ndarray where
  "float_triplets = Float64Array [(0, 1, 7 / 2)]"

definition example_permutation :: "nat list" where
  "example_permutation = [1, 0]"

definition example_ids :: "(int \<times> int) list" where
  "example_ids = [(0, 0), (1, 1)]"

definition misaligned_ids :: "(int \<times> int) list" where
  "misaligned_ids = [(0, 0)]"

definition example_predictions :: "(bool \<times> string) list" where
  "example_predictions = [(False, ''4.2''), (False, ''3.7'')]"

definition nan_predictions :: "(bool \<times> string) list" where
  "nan_predictions = [(False, ''4.2''), (True, ''nan'')]"

section \<open>\<open>build_rating_matrix\<close>: what it returns\<close>

lemma zip_columns:
  "zip (map fst ts) (zip (map (fst \<circ> snd) ts) (map (snd \<circ> snd) ts)) = ts"
  by (induction ts) auto

lemma nonneg_Min_Max:
  fixes xs :: "int list"
  assumes "xs \<noteq> []" and "\<forall>x \<in> set xs. 0 \<le> x"
  shows "\<not> Min (set xs) < 0 \<and> \<not> Max (set xs) + 1 < 0"
proof -
  have fin: "finite (set xs)" and ne: "set xs \<noteq> {}"
    using assms(1) by simp_all
  have "Min (set xs) \<in> set xs"
    using fin ne by (rule Min_in)
  then have "0 \<le> Min (set xs)"
    using assms(2) by blast
  moreover have "Max (set xs) \<in> set xs"
    using fin ne by (rule Max_in)
  then have "0 \<le> Max (set xs)"
    using assms(2) by blast
  ultimately show ?thesis by linarith
qed

text \<open>The triplets of an integer array, with the ids read as integers.\<close>

lemma int64_columns:
  "map (sint \<circ> fst) ts = map fst (map (\<lambda>(u, m, r). (sint u, sint m, r)) ts)"
  "map (sint \<circ> fst \<circ> snd) ts = map (fst \<circ> snd) (map (\<lambda>(u, m, r). (sint u, sint m, r)) ts)"
  "map (snd \<circ> snd) ts = map (snd \<circ> snd) (map (\<lambda>(u, m, r). (sint u, sint m, r)) ts)"
  by (simp_all add: case_prod_beta comp_def)

lemma rating_sum_sint:
  fixes ts :: "(64 word \<times> 64 word \<times> 'a::comm_monoid_add) list"
  shows "rating_sum (map (\<lambda>(u, m, r). (sint u, sint m, r)) ts) (sint a) (sint b) = rating_sum ts a b"
  unfolding rating_sum_def by (induction ts) (auto simp: signed_word_eqI)

lemma coo_tocsr_deref:
  fixes its :: "(int \<times> int \<times> 'a::comm_monoid_add) list"
  assumes "its \<noteq> []" and "\<forall>(u, m, r) \<in> set its. 0 \<le> u \<and> 0 \<le> m"
  shows "deref (case coo_matrix (map (snd \<circ> snd) its) (map fst its) (map (fst \<circ> snd) its) h of
                  (Inl e, h1) \<Rightarrow> (Inl e, h1)
                | (Inr c, h1) \<Rightarrow> (case tocsr c h1 of (R, h2) \<Rightarrow> (Inr R, h2))) =
     Inr \<lparr>format = CSR,
          nrows = nat (Max (set (map fst its)) + 1),
          ncols = nat (Max (set (map (fst \<circ> snd) its)) + 1),
          dense = map (\<lambda>u. map (\<lambda>m. rating_sum its (int u) (int m))
                    [0..<nat (Max (set (map (fst \<circ> snd) its)) + 1)])
                    [0..<nat (Max (set (map fst its)) + 1)]\<rparr>"
proof -
  have ne: "map fst its \<noteq> []" "map (fst \<circ> snd) its \<noteq> []"
    using assms(1) by simp_all
  have nonneg: "\<forall>x \<in> set (map fst its). 0 \<le> x" "\<forall>x \<in> set (map (fst \<circ> snd) its). 0 \<le> x"
    using assms(2) by auto
  note b1 = nonneg_Min_Max [OF ne(1) nonneg(1)]
  note b2 = nonneg_Min_Max [OF ne(2) nonneg(2)]
  have "coo_matrix (map (snd \<circ> snd) its) (map fst its) (map (fst \<circ> snd) its) h =
      (Inr (length h), h @ [\<lparr>format = COO,
          nrows = nat (Max (set (map fst its)) + 1),
          ncols = nat (Max (set (map (fst \<circ> snd) its)) + 1),
          dense = map (\<lambda>u. map (\<lambda>m. rating_sum its (int u) (int m))
                    [0..<nat (Max (set (map (fst \<circ> snd) its)) + 1)])
                    [0..<nat (Max (set (map fst its)) + 1)]\<rparr>])"
    unfolding coo_matrix_def Let_def alloc_def zip_columns rating_sum_def
    using ne b1 b2 by (simp only: if_False simp_thms case_prod_conv)
  then show ?thesis
    by (simp add: tocsr_def alloc_def Let_def nth_append del: set_map)
qed

lemma build_rating_matrix_deref:
  assumes "ts \<noteq> []" and "\<forall>(u, m, r) \<in> set ts. 0 \<le> sint u \<and> 0 \<le> sint m"
  shows "deref (build_rating_matrix (Int64Array ts) h) =
     Inr \<lparr>format = CSR,
          nrows = nat (Max (set (map (sint \<circ> fst) ts)) + 1),
          ncols = nat (Max (set (map (sint \<circ> fst \<circ> snd) ts)) + 1),
          dense = map (\<lambda>u. map (\<lambda>m.
                      rating_sum (map (\<lambda>(u, m, r). (sint u, sint m, r)) ts) (int u) (int m))
                    [0..<nat (Max (set (map (sint \<circ> fst \<circ> snd) ts)) + 1)])
                    [0..<nat (Max (set (map (sint \<circ> fst) ts)) + 1)]\<rparr>"
proof -
  let ?its = "map (\<lambda>(u, m, r). (sint u, sint m, r)) ts"
  have ne: "?its \<noteq> []" using assms(1) by simp
  have nonneg: "\<forall>(u, m, r) \<in> set ?its. 0 \<le> u \<and> 0 \<le> m"
    using assms(2) by auto
  show ?thesis
    unfolding build_rating_matrix_def ndarray.case Let_def int64_columns
    by (rule coo_tocsr_deref [OF ne nonneg])
qed

lemma build_rating_matrix_float:
  "build_rating_matrix (Float64Array fs) h =
     (if fs = [] then (Inl ValueError, h) else (Inl TypeError, h))"
  by (simp add: build_rating_matrix_def coo_matrix_float_def)

lemma rating_sum_absent:
  "\<forall>r. (u, m, r) \<notin> set ts \<Longrightarrow> rating_sum ts u m = 0"
  unfolding rating_sum_def by (induction ts) auto

lemma rating_sum_unique:
  "distinct (map (\<lambda>(u, m, r). (u, m)) ts) \<Longrightarrow> (u, m, r) \<in> set ts \<Longrightarrow> rating_sum ts u m = r"
proof (induction ts)
  case Nil
  then show ?case by simp
next
  case (Cons t ts)
  obtain u' m' r' where t: "t = (u', m', r')" by (cases t) auto
  show ?case
  proof (cases "u' = u \<and> m' = m")
    case True
    with Cons.prems t have absent: "\<forall>r. (u, m, r) \<notin> set ts"
      by (auto simp: image_iff)
    with Cons.prems t True have "r' = r" by auto
    with True t absent show ?thesis
      using rating_sum_absent [OF absent] by (simp add: rating_sum_def)
  next
    case False
    with Cons t show ?thesis by (auto simp: rating_sum_def)
  qed
qed

lemma id_below_shape:
  fixes xs :: "int list"
  assumes "x \<in> set xs" and "0 \<le> x"
  shows "nat x < nat (Max (set xs) + 1)"
proof -
  have "x \<le> Max (set xs)" using assms(1) by (simp del: set_map)
  with assms(2) show ?thesis by linarith
qed

lemma build_rating_matrix_wf:
  assumes "ts \<noteq> []" and "\<forall>(u, m, r) \<in> set ts. 0 \<le> sint u \<and> 0 \<le> sint m"
    and "deref (build_rating_matrix (Int64Array ts) h) = Inr R"
  shows "wf_matrix R"
  using assms(3) unfolding build_rating_matrix_deref [OF assms(1,2)]
  by (auto simp: wf_matrix_def list_all_length simp del: set_map)

lemma build_rating_matrix_entry:
  assumes "ts \<noteq> []" and "\<forall>(u, m, r) \<in> set ts. 0 \<le> sint u \<and> 0 \<le> sint m"
    and "deref (build_rating_matrix (Int64Array ts) h) = Inr R"
    and "u < nrows R" and "m < ncols R"
  shows "entry R u m = rating_sum (map (\<lambda>(u, m, r). (sint u, sint m, r)) ts) (int u) (int m)"
  using assms(3-5) unfolding build_rating_matrix_deref [OF assms(1,2)]
  by (auto simp: entry_def simp del: set_map)

lemma build_rating_matrix_shape:
  assumes "ts \<noteq> []" and "\<forall>(u, m, r) \<in> set ts. 0 \<le> sint u \<and> 0 \<le> sint m"
    and "deref (build_rating_matrix (Int64Array ts) h) = Inr R"
  shows "nrows R = nat (Max (set (map (sint \<circ> fst) ts)) + 1)"
    and "ncols R = nat (Max (set (map (sint \<circ> fst \<circ> snd) ts)) + 1)"
  using assms(3) unfolding build_rating_matrix_deref [OF assms(1,2)]
  by (auto simp del: set_map)

lemma build_rating_matrix_in_shape:
  assumes "ts \<noteq> []" and "\<forall>(u, m, r) \<in> set ts. 0 \<le> sint u \<and> 0 \<le> sint m"
    and "deref (build_rating_matrix (Int64Array ts) h) = Inr R"
    and "(u, m, r) \<in> set ts"
  shows "nat (sint u) < nrows R \<and> nat (sint m) < ncols R"
proof -
  have "sint u \<in> set (map (sint \<circ> fst) ts)" "sint m \<in> set (map (sint \<circ> fst \<circ> snd) ts)"
    using assms(4) by force+
  moreover have "0 \<le> sint u" "0 \<le> sint m" using assms(2,4) by auto
  ultimately show ?thesis
    unfolding build_rating_matrix_shape [OF assms(1-3)]
    using id_below_shape by blast
qed

lemma build_rating_matrix_entry_of_triplet:
  assumes "ts \<noteq> []" and "\<forall>(u, m, r) \<in> set ts. 0 \<le> sint u \<and> 0 \<le> sint m"
    and "deref (build_rating_matrix (Int64Array ts) h) = Inr R"
    and "(u, m, r) \<in> set ts"
  shows "entry R (nat (sint u)) (nat (sint m)) = rating_sum ts u m"
proof -
  have inb: "nat (sint u) < nrows R" "nat (sint m) < ncols R"
    using build_rating_matrix_in_shape [OF assms] by simp_all
  have "0 \<le> sint u" "0 \<le> sint m" using assms(2,4) by auto
  then show ?thesis
    using build_rating_matrix_entry [OF assms(1-3) inb] rating_sum_sint [of ts u m] by simp
qed

text \<open>
  The call returns a matrix exactly for a non-empty integer array with non-negative ids; on
  every other input it raises.
\<close>

lemma build_rating_matrix_returns_iff:
  "(\<exists>R. deref (build_rating_matrix arr h) = Inr R) \<longleftrightarrow>
     (\<exists>ts. arr = Int64Array ts \<and> ts \<noteq> [] \<and> (\<forall>(u, m, r) \<in> set ts. 0 \<le> sint u \<and> 0 \<le> sint m))"
proof
  assume "\<exists>ts. arr = Int64Array ts \<and> ts \<noteq> [] \<and> (\<forall>(u, m, r) \<in> set ts. 0 \<le> sint u \<and> 0 \<le> sint m)"
  then show "\<exists>R. deref (build_rating_matrix arr h) = Inr R"
    using build_rating_matrix_deref by blast
next
  assume "\<exists>R. deref (build_rating_matrix arr h) = Inr R"
  then obtain R where R: "deref (build_rating_matrix arr h) = Inr R" by blast
  show "\<exists>ts. arr = Int64Array ts \<and> ts \<noteq> [] \<and> (\<forall>(u, m, r) \<in> set ts. 0 \<le> sint u \<and> 0 \<le> sint m)"
  proof (cases arr)
    case (Float64Array fs)
    with R show ?thesis by (simp add: build_rating_matrix_float split: if_splits)
  next
    case (Int64Array ts)
    have ne: "ts \<noteq> []"
      using R Int64Array by (auto simp: build_rating_matrix_def coo_matrix_def)
    have mins: "\<not> Min (set (map (sint \<circ> fst) ts)) < 0 \<and>
        \<not> Min (set (map (sint \<circ> fst \<circ> snd) ts)) < 0"
      using R ne Int64Array
      by (auto simp: build_rating_matrix_def coo_matrix_def Let_def simp del: set_map
          split: if_splits)
    have "0 \<le> sint u \<and> 0 \<le> sint m" if t: "(u, m, r) \<in> set ts" for u m r
    proof -
      have "sint u \<in> set (map (sint \<circ> fst) ts)" "sint m \<in> set (map (sint \<circ> fst \<circ> snd) ts)"
        using t by force+
      then have "Min (set (map (sint \<circ> fst) ts)) \<le> sint u"
        "Min (set (map (sint \<circ> fst \<circ> snd) ts)) \<le> sint m"
        by (simp_all del: set_map)
      with mins show ?thesis by linarith
    qed
    with ne Int64Array show ?thesis by blast
  qed
qed

text \<open>
  C2 says that for every non-empty sequence of rating triplets with unique pairs a matrix
  is returned. It is not so when a rating is not an integer: the array is then an array of
  floats, ids included, and for the single triplet \<open>(0, 1, 3.5)\<close> the call raises
  \<open>TypeError\<close> and leaves no matrix.
\<close>

theorem build_rating_matrix_float_counterexample:
  "float_triplets = Float64Array [(0, 1, 7 / 2)] \<and>
   build_rating_matrix float_triplets [] = (Inl TypeError, [])"
  by (simp add: float_triplets_def build_rating_matrix_def coo_matrix_float_def)

text \<open>
  C2, amended. For a non-empty integer array of rating triplets (ids non-negative, as the
  data model has them) in which each (user, movie) pair occurs at most once,
  \<open>build_rating_matrix\<close> returns a well-formed matrix \<open>R\<close> with \<open>R[u, m] = r\<close> for every
  triplet \<open>(u, m, r)\<close> of the input and \<open>R[u, m] = 0\<close> for every in-bounds \<open>(u, m)\<close> that
  is not in the input.
\<close>

theorem build_rating_matrix_unique_pairs:
  assumes "ts \<noteq> []"
    and "distinct (map (\<lambda>(u, m, r). (u, m)) ts)"
    and "\<forall>(u, m, r) \<in> set ts. 0 \<le> sint u \<and> 0 \<le> sint m"
  shows "\<exists>R. deref (build_rating_matrix (Int64Array ts) h) = Inr R \<and> wf_matrix R \<and>
           (\<forall>(u, m, r) \<in> set ts.
              nat (sint u) < nrows R \<and> nat (sint m) < ncols R \<and>
              entry R (nat (sint u)) (nat (sint m)) = r) \<and>
           (\<forall>u < nrows R. \<forall>m < ncols R.
              (\<forall>(a, b, r) \<in> set ts. sint a \<noteq> int u \<or> sint b \<noteq> int m) \<longrightarrow> entry R u m = 0)"
proof -
  obtain R where R: "deref (build_rating_matrix (Int64Array ts) h) = Inr R"
    using build_rating_matrix_deref [OF assms(1,3)] by blast
  have wf: "wf_matrix R"
    using build_rating_matrix_wf [OF assms(1,3) R] .
  have seen: "nat (sint u) < nrows R \<and> nat (sint m) < ncols R \<and>
      entry R (nat (sint u)) (nat (sint m)) = r"
    if t: "(u, m, r) \<in> set ts" for u m r
    using build_rating_matrix_in_shape [OF assms(1,3) R t]
      build_rating_matrix_entry_of_triplet [OF assms(1,3) R t]
      rating_sum_unique [OF assms(2) t]
    by simp
  have unseen: "entry R u m = 0"
    if "u < nrows R" "m < ncols R" "\<forall>(a, b, r) \<in> set ts. sint a \<noteq> int u \<or> sint b \<noteq> int m"
    for u m
  proof -
    have "\<forall>r. (int u, int m, r) \<notin> set (map (\<lambda>(u, m, r). (sint u, sint m, r)) ts)"
      using that(3) by auto
    from rating_sum_absent [OF this] show ?thesis
      using build_rating_matrix_entry [OF assms(1,3) R that(1,2)] by simp
  qed
  show ?thesis
    using R wf seen unseen by (intro exI [of _ R]) auto
qed

theorem build_rating_matrix_unique_pairs_witness:
  "example_triplets \<noteq> [] \<and>
   distinct (map (\<lambda>(u, m, r). (u, m)) example_triplets) \<and>
   list_all (\<lambda>(u, m, r). 0 \<le> sint u \<and> 0 \<le> sint m) example_triplets \<and>
   (\<exists>R. deref (build_rating_matrix (Int64Array example_triplets) []) = Inr R \<and>
      entry R 0 0 = 5 \<and> entry R 1 1 = 3 \<and> entry R 0 1 = 0 \<and> entry R 1 0 = 0)"
proof -
  have a: "example_triplets \<noteq> []"
    by (simp add: example_triplets_def)
  have b: "distinct (map (\<lambda>(u, m, r). (u, m)) example_triplets)"
    by (simp add: example_triplets_def)
  have c: "\<forall>(u, m, r) \<in> set example_triplets. 0 \<le> sint u \<and> 0 \<le> sint m"
    by (simp add: example_triplets_def)
  have c': "list_all (\<lambda>(u, m, r). 0 \<le> sint u \<and> 0 \<le> sint m) example_triplets"
    by (simp add: example_triplets_def)
  obtain R where R: "deref (build_rating_matrix (Int64Array example_triplets) []) = Inr R"
    and seen: "\<forall>(u, m, r) \<in> set example_triplets.
              nat (sint u) < nrows R \<and> nat (sint m) < ncols R \<and>
              entry R (nat (sint u)) (nat (sint m)) = r"
    and unseen: "\<forall>u < nrows R. \<forall>m < ncols R.
              (\<forall>(a, b, r) \<in> set example_triplets. sint a \<noteq> int u \<or> sint b \<noteq> int m)
              \<longrightarrow> entry R u m = 0"
    using build_rating_matrix_unique_pairs [OF a b c, of "[]"] by blast
  from seen have s: "entry R 0 0 = 5" "entry R 1 1 = 3" "1 < nrows R" "1 < ncols R"
    by (auto simp: example_triplets_def)
  then have "0 < nrows R" "0 < ncols R" by simp_all
  with unseen s have z: "entry R 0 1 = 0" "entry R 1 0 = 0"
    by (auto simp: example_triplets_def)
  with a b c' R s(1,2) show ?thesis by blast
qed

text \<open>
  C3 says that with several triplets for one (user, movie) pair the entry is the rating of
  the last of them. It is not: for the triplets \<open>(0, 0, 1), (0, 0, 2)\<close> the entry
  \<open>R[0, 0]\<close> is \<open>3\<close>, not the last rating \<open>2\<close>.
\<close>

theorem build_rating_matrix_last_write_counterexample:
  "deref (build_rating_matrix (Int64Array duplicate_triplets) []) =
     Inr \<lparr>format = CSR, nrows = 1, ncols = 1, dense = [[3]]\<rparr> \<and>
   entry \<lparr>format = CSR, nrows = 1, ncols = 1, dense = [[3]]\<rparr> 0 0
     \<noteq> snd (snd (last duplicate_triplets))"
  by (simp add: duplicate_triplets_def build_rating_matrix_def coo_matrix_def tocsr_def
      alloc_def entry_def Let_def)

text \<open>
  C3, amended. For an integer array (ids non-negative) with several triplets for one
  (user, movie) pair, the entry \<open>R[u, m]\<close> is the sum of the ratings of all the triplets
  of that pair, in 64-bit integer arithmetic, which wraps around: the conversion from the
  coordinate list adds duplicates up.
\<close>

theorem build_rating_matrix_duplicates_sum:
  assumes "ts \<noteq> []"
    and "\<forall>(u, m, r) \<in> set ts. 0 \<le> sint u \<and> 0 \<le> sint m"
  shows "\<exists>R. deref (build_rating_matrix (Int64Array ts) h) = Inr R \<and> wf_matrix R \<and>
           (\<forall>(u, m, r) \<in> set ts.
              nat (sint u) < nrows R \<and> nat (sint m) < ncols R \<and>
              entry R (nat (sint u)) (nat (sint m)) = rating_sum ts u m)"
proof -
  obtain R where R: "deref (build_rating_matrix (Int64Array ts) h) = Inr R"
    using build_rating_matrix_deref [OF assms] by blast
  have wf: "wf_matrix R"
    using build_rating_matrix_wf [OF assms R] .
  have "nat (sint u) < nrows R \<and> nat (sint m) < ncols R \<and>
      entry R (nat (sint u)) (nat (sint m)) = rating_sum ts u m"
    if t: "(u, m, r) \<in> set ts" for u m r
    using build_rating_matrix_in_shape [OF assms R t]
      build_rating_matrix_entry_of_triplet [OF assms R t]
    by simp
  with R wf show ?thesis by (intro exI [of _ R]) auto
qed

theorem build_rating_matrix_duplicates_sum_witness:
  "duplicate_triplets \<noteq> [] \<and>
   list_all (\<lambda>(u, m, r). 0 \<le> sint u \<and> 0 \<le> sint m) duplicate_triplets \<and>
   (\<exists>R. deref (build_rating_matrix (Int64Array duplicate_triplets) []) = Inr R \<and>
      entry R 0 0 = 1 + 2) \<and>
   overflow_triplets \<noteq> [] \<and>
   list_all (\<lambda>(u, m, r). 0 \<le> sint u \<and> 0 \<le> sint m) overflow_triplets \<and>
   (\<exists>R. deref (build_rating_matrix (Int64Array overflow_triplets) []) = Inr R \<and>
      sint (entry R 0 0) = - (2 ^ 63))"
proof -
  have a: "duplicate_triplets \<noteq> []"
    by (simp add: duplicate_triplets_def)
  have b: "\<forall>(u, m, r) \<in> set duplicate_triplets. 0 \<le> sint u \<and> 0 \<le> sint m"
    by (simp add: duplicate_triplets_def)
  have b': "list_all (\<lambda>(u, m, r). 0 \<le> sint u \<and> 0 \<le> sint m) duplicate_triplets"
    by (simp add: duplicate_triplets_def)
  obtain R where R: "deref (build_rating_matrix (Int64Array duplicate_triplets) []) = Inr R"
    and sums: "\<forall>(u, m, r) \<in> set duplicate_triplets.
       nat (sint u) < nrows R \<and> nat (sint m) < ncols R \<and>
       entry R (nat (sint u)) (nat (sint m)) = rating_sum duplicate_triplets u m"
    using build_rating_matrix_duplicates_sum [OF a b, of "[]"] by blast
  from sums have "entry R 0 0 = 1 + 2"
    by (simp add: duplicate_triplets_def rating_sum_def)
  with R have one: "\<exists>R. deref (build_rating_matrix (Int64Array duplicate_triplets) []) = Inr R \<and>
      entry R 0 0 = 1 + 2"
    by blast
  have c: "overflow_triplets \<noteq> []"
    by (simp add: overflow_triplets_def)
  have d: "\<forall>(u, m, r) \<in> set overflow_triplets. 0 \<le> sint u \<and> 0 \<le> sint m"
    by (simp add: overflow_triplets_def)
  have d': "list_all (\<lambda>(u, m, r). 0 \<le> sint u \<and> 0 \<le> sint m) overflow_triplets"
    by (simp add: overflow_triplets_def)
  obtain S where S: "deref (build_rating_matrix (Int64Array overflow_triplets) []) = Inr S"
    and sums': "\<forall>(u, m, r) \<in> set overflow_triplets.
       nat (sint u) < nrows S \<and> nat (sint m) < ncols S \<and>
       entry S (nat (sint u)) (nat (sint m)) = rating_sum overflow_triplets u m"
    using build_rating_matrix_duplicates_sum [OF c d, of "[]"] by blast
  from sums' have "entry S 0 0 = 2 ^ 62 + 2 ^ 62"
    by (simp add: overflow_triplets_def rating_sum_def)
  then have "sint (entry S 0 0) = - (2 ^ 63)"
    by simp
  with S have two: "\<exists>R. deref (build_rating_matrix (Int64Array overflow_triplets) []) = Inr R \<and>
      sint (entry R 0 0) = - (2 ^ 63)"
    by blast
  from a b' one c d' two show ?thesis by (intro conjI)
qed

text \<open>
  C7. The function takes no dimensions. Whenever it returns a matrix, the argument is a
  non-empty integer array and the matrix is well formed with (maximum user id + 1) rows
  and (maximum movie id + 1) columns; and it does return one for every non-empty integer
  array with non-negative ids.
\<close>

theorem build_rating_matrix_dimensions:
  "(ts \<noteq> [] \<and> (\<forall>(u, m, r) \<in> set ts. 0 \<le> sint u \<and> 0 \<le> sint m) \<longrightarrow>
      (\<exists>R. deref (build_rating_matrix (Int64Array ts) h) = Inr R)) \<and>
   (deref (build_rating_matrix arr h) = Inr R \<longrightarrow>
      (\<exists>ts. arr = Int64Array ts \<and> ts \<noteq> [] \<and>
         wf_matrix R \<and>
         length (dense R) = nrows R \<and>
         int (nrows R) = Max (set (map (sint \<circ> fst) ts)) + 1 \<and>
         int (ncols R) = Max (set (map (sint \<circ> fst \<circ> snd) ts)) + 1))"
proof (intro conjI impI)
  assume "ts \<noteq> [] \<and> (\<forall>(u, m, r) \<in> set ts. 0 \<le> sint u \<and> 0 \<le> sint m)"
  then show "\<exists>R. deref (build_rating_matrix (Int64Array ts) h) = Inr R"
    using build_rating_matrix_deref by blast
next
  assume R: "deref (build_rating_matrix arr h) = Inr R"
  then obtain ts where arr: "arr = Int64Array ts" and ne: "ts \<noteq> []"
    and nonneg: "\<forall>(u, m, r) \<in> set ts. 0 \<le> sint u \<and> 0 \<le> sint m"
    using build_rating_matrix_returns_iff [of arr h] by blast
  have R': "deref (build_rating_matrix (Int64Array ts) h) = Inr R"
    using R arr by simp
  have wf: "wf_matrix R"
    using build_rating_matrix_wf [OF ne nonneg R'] .
  have ne': "map (sint \<circ> fst) ts \<noteq> []" "map (sint \<circ> fst \<circ> snd) ts \<noteq> []"
    using ne by simp_all
  have nonneg': "\<forall>x \<in> set (map (sint \<circ> fst) ts). 0 \<le> x"
    "\<forall>x \<in> set (map (sint \<circ> fst \<circ> snd) ts). 0 \<le> x"
    using nonneg by auto
  have rows: "int (nrows R) = Max (set (map (sint \<circ> fst) ts)) + 1"
    unfolding build_rating_matrix_shape(1) [OF ne nonneg R']
    using nonneg_Min_Max [OF ne'(1) nonneg'(1)] by linarith
  have cols: "int (ncols R) = Max (set (map (sint \<circ> fst \<circ> snd) ts)) + 1"
    unfolding build_rating_matrix_shape(2) [OF ne nonneg R']
    using nonneg_Min_Max [OF ne'(2) nonneg'(2)] by linarith
  from arr ne wf rows cols
  show "\<exists>ts. arr = Int64Array ts \<and> ts \<noteq> [] \<and>
         wf_matrix R \<and>
         length (dense R) = nrows R \<and>
         int (nrows R) = Max (set (map (sint \<circ> fst) ts)) + 1 \<and>
         int (ncols R) = Max (set (map (sint \<circ> fst \<circ> snd) ts)) + 1"
    by (intro exI [of _ ts]) (simp add: wf_matrix_def)
qed

theorem build_rating_matrix_dimensions_witness:
  "example_triplets \<noteq> [] \<and>
   list_all (\<lambda>(u, m, r). 0 \<le> sint u \<and> 0 \<le> sint m) example_triplets \<and>
   (\<exists>R. deref (build_rating_matrix (Int64Array example_triplets) []) = Inr R \<and>
      wf_matrix R \<and> nrows R = 2 \<and> ncols R = 2 \<and>
      dense R = [[5, 0], [0, 3]])"
proof -
  have a: "example_triplets \<noteq> []"
    by (simp add: example_triplets_def)
  have b: "\<forall>(u, m, r) \<in> set example_triplets. 0 \<le> sint u \<and> 0 \<le> sint m"
    by (simp add: example_triplets_def)
  have b': "list_all (\<lambda>(u, m, r). 0 \<le> sint u \<and> 0 \<le> sint m) example_triplets"
    by (simp add: example_triplets_def)
  obtain R where R: "deref (build_rating_matrix (Int64Array example_triplets) []) = Inr R"
    using build_rating_matrix_dimensions [where ts = example_triplets and h = "[]"] a b
    by blast
  obtain ts where ts: "Int64Array example_triplets = Int64Array ts"
    and wf: "wf_matrix R"
    and shape: "int (nrows R) = Max (set (map (sint \<circ> fst) ts)) + 1"
      "int (ncols R) = Max (set (map (sint \<circ> fst \<circ> snd) ts)) + 1"
    using build_rating_matrix_dimensions
      [where arr = "Int64Array example_triplets" and h = "[]" and R = R] R
    by blast
  from ts have ts': "ts = example_triplets" by simp
  from shape have sh: "nrows R = 2" "ncols R = 2"
    unfolding ts' by (simp_all add: example_triplets_def)
  have "deref (build_rating_matrix (Int64Array example_triplets) []) =
      Inr \<lparr>format = CSR, nrows = 2, ncols = 2, dense = [[5, 0], [0, 3]]\<rparr>"
    by (simp add: example_triplets_def build_rating_matrix_def coo_matrix_def tocsr_def
        alloc_def Let_def upt_rec)
  with R have "R = \<lparr>format = CSR, nrows = 2, ncols = 2, dense = [[5, 0], [0, 3]]\<rparr>"
    by simp
  then have "dense R = [[5, 0], [0, 3]]" by simp
  with a b' R wf sh show ?thesis by blast
qed

section \<open>\<open>create_learning_matrices\<close>: what it returns\<close>

lemma asindices_length: "asindices idx n = Inr is \<Longrightarrow> length is = length idx"
  by (auto simp: asindices_def split: if_splits)

lemma asindices_in_range:
  assumes "\<forall>x \<in> set idx. - int n \<le> x \<and> x < int n"
  shows "asindices idx n = Inr (map (\<lambda>x. nat (if x < 0 then x + int n else x)) idx)"
proof (cases "idx = []")
  case True
  then show ?thesis by (simp add: asindices_def)
next
  case False
  then have fin: "finite (set idx)" and ne: "set idx \<noteq> {}" by simp_all
  have "Max (set idx) \<in> set idx" using fin ne by (rule Max_in)
  then have "\<not> int n \<le> Max (set idx)" using assms by fastforce
  moreover have "Min (set idx) \<in> set idx" using fin ne by (rule Min_in)
  then have "\<not> Min (set idx) < - int n" using assms by fastforce
  ultimately show ?thesis using False by (simp add: asindices_def)
qed

lemma asindices_out_of_range:
  assumes "x \<in> set idx" and "x < - int n \<or> int n \<le> x"
  shows "asindices idx n = Inl IndexError"
proof -
  have ne: "idx \<noteq> []" using assms(1) by auto
  have "Min (set idx) \<le> x" "x \<le> Max (set idx)" using assms(1) by simp_all
  with assms(2) have "int n \<le> Max (set idx) \<or> Min (set idx) < - int n" by linarith
  with ne show ?thesis by (auto simp: asindices_def)
qed

lemma asindices_error: "asindices idx n = Inl e \<Longrightarrow> e = IndexError"
  by (auto simp: asindices_def split: if_splits)

lemma map2_append_rows:
  "length us = n \<Longrightarrow> length ms = n \<Longrightarrow>
   map2 (@) (map ((!) d) us)
     (map (\<lambda>j. map ((\<lambda>row. row ! j) \<circ> (\<lambda>row. map ((!) row) ms)) d) [0..<n])
   = map2 (\<lambda>u m. d ! u @ map (\<lambda>row. row ! m) d) us ms"
  by (rule nth_equalityI) simp_all

lemma create_learning_matrices_deref:
  assumes "r < length h"
  shows "deref (create_learning_matrices r pairs h) = learning_matrix_of (h ! r) pairs"
  using assms
  by (auto simp: create_learning_matrices_def learning_matrix_of_def tocsr_def tocsc_def
      getitem_rows_def getitem_cols_def transpose_sp_def hstack_def alloc_def Let_def
      nth_append row_of_def col_of_def map2_append_rows
      dest!: asindices_length
      split: sum.splits prod.splits sformat.splits)

lemma create_learning_matrices_frame:
  "\<exists>ys. snd (create_learning_matrices r pairs h) = h @ ys"
  by (auto simp: create_learning_matrices_def tocsr_def tocsc_def
      getitem_rows_def getitem_cols_def transpose_sp_def hstack_def alloc_def Let_def
      split: sum.splits prod.splits sformat.splits)

lemma learning_matrix_of_in_range:
  assumes "\<forall>(u, m) \<in> set pairs. - int (nrows R) \<le> u \<and> u < int (nrows R) \<and>
             - int (ncols R) \<le> m \<and> m < int (ncols R)"
  shows "learning_matrix_of R pairs =
     Inr \<lparr>format = CSR, nrows = length pairs, ncols = ncols R + nrows R,
          dense = map (\<lambda>(u, m).
              row_of R (nat (if u < 0 then u + int (nrows R) else u)) @
              col_of R (nat (if m < 0 then m + int (ncols R) else m))) pairs\<rparr>"
proof -
  have u: "\<forall>x \<in> set (map fst pairs). - int (nrows R) \<le> x \<and> x < int (nrows R)"
    using assms by auto
  have m: "\<forall>x \<in> set (map snd pairs). - int (ncols R) \<le> x \<and> x < int (ncols R)"
    using assms by auto
  have "map2 (\<lambda>u m. row_of R u @ col_of R m)
          (map (\<lambda>x. nat (if x < 0 then x + int (nrows R) else x)) (map fst pairs))
          (map (\<lambda>x. nat (if x < 0 then x + int (ncols R) else x)) (map snd pairs))
        = map (\<lambda>(u, m).
              row_of R (nat (if u < 0 then u + int (nrows R) else u)) @
              col_of R (nat (if m < 0 then m + int (ncols R) else m))) pairs"
    by (rule nth_equalityI) (simp_all add: case_prod_beta)
  then show ?thesis
    unfolding learning_matrix_of_def asindices_in_range [OF u] asindices_in_range [OF m]
    by simp
qed

lemma learning_matrix_of_out_of_range:
  assumes "(u, m) \<in> set pairs"
    and "u < - int (nrows R) \<or> int (nrows R) \<le> u \<or> m < - int (ncols R) \<or> int (ncols R) \<le> m"
  shows "learning_matrix_of R pairs = Inl IndexError"
proof (cases "u < - int (nrows R) \<or> int (nrows R) \<le> u")
  case True
  have "u \<in> set (map fst pairs)" using assms(1) by force
  from asindices_out_of_range [OF this True] show ?thesis
    by (simp add: learning_matrix_of_def)
next
  case False
  with assms(2) have bad: "m < - int (ncols R) \<or> int (ncols R) \<le> m" by blast
  have "m \<in> set (map snd pairs)" using assms(1) by force
  from asindices_out_of_range [OF this bad] show ?thesis
    by (auto simp: learning_matrix_of_def split: sum.splits dest: asindices_error)
qed

text \<open>
  C1. For a rating matrix \<open>R\<close> of shape (n_users, n_movies) and \<open>n\<close> query pairs whose
  indices are within the dimensions of \<open>R\<close>, \<open>create_learning_matrices\<close> returns a matrix
  with \<open>n\<close> rows and n_users + n_movies columns whose row \<open>i\<close> is row \<open>u_i\<close> of \<open>R\<close>
  followed by column \<open>m_i\<close> of \<open>R\<close>.
\<close>

theorem create_learning_matrices_rows:
  assumes "r < length h" and "wf_matrix (h ! r)"
    and "\<forall>(u, m) \<in> set pairs.
           0 \<le> u \<and> u < int (nrows (h ! r)) \<and> 0 \<le> m \<and> m < int (ncols (h ! r))"
  shows "\<exists>X. deref (create_learning_matrices r pairs h) = Inr X \<and>
           nrows X = length pairs \<and> ncols X = nrows (h ! r) + ncols (h ! r) \<and>
           wf_matrix X \<and>
           (\<forall>i < length pairs.
              row_of X i =
                row_of (h ! r) (nat (fst (pairs ! i))) @ col_of (h ! r) (nat (snd (pairs ! i))))"
proof -
  let ?R = "h ! r"
  let ?X = "\<lparr>format = CSR, nrows = length pairs, ncols = ncols ?R + nrows ?R,
          dense = map (\<lambda>(u, m).
              row_of ?R (nat (if u < 0 then u + int (nrows ?R) else u)) @
              col_of ?R (nat (if m < 0 then m + int (ncols ?R) else m))) pairs\<rparr>"
  have range: "\<forall>(u, m) \<in> set pairs. - int (nrows ?R) \<le> u \<and> u < int (nrows ?R) \<and>
             - int (ncols ?R) \<le> m \<and> m < int (ncols ?R)"
    using assms(3) by fastforce
  have X: "deref (create_learning_matrices r pairs h) = Inr ?X"
    using create_learning_matrices_deref [OF assms(1)] learning_matrix_of_in_range [OF range]
    by simp
  have row: "row_of ?X i = row_of ?R (nat (fst (pairs ! i))) @ col_of ?R (nat (snd (pairs ! i)))"
    if i: "i < length pairs" for i
  proof -
    have "pairs ! i \<in> set pairs" using i by simp
    with assms(3) have "0 \<le> fst (pairs ! i)" "0 \<le> snd (pairs ! i)" by fastforce+
    with i show ?thesis by (simp add: row_of_def case_prod_beta)
  qed
  have len: "length (row_of ?R (nat u) @ col_of ?R (nat m)) = ncols ?R + nrows ?R"
    if "(u, m) \<in> set pairs" for u m
  proof -
    from that assms(3) have "nat u < nrows ?R" by fastforce
    with assms(2) have "length (row_of ?R (nat u)) = ncols ?R"
      by (simp add: wf_matrix_def row_of_def list_all_length)
    moreover have "length (col_of ?R (nat m)) = nrows ?R"
      using assms(2) by (simp add: wf_matrix_def col_of_def)
    ultimately show ?thesis by simp
  qed
  have wf: "wf_matrix ?X"
    unfolding wf_matrix_def list_all_iff
  proof (intro conjI ballI)
    show "length (dense ?X) = nrows ?X" by simp
  next
    fix row assume "row \<in> set (dense ?X)"
    then obtain u m where um: "(u, m) \<in> set pairs"
      and row: "row = row_of ?R (nat (if u < 0 then u + int (nrows ?R) else u)) @
              col_of ?R (nat (if m < 0 then m + int (ncols ?R) else m))"
      by auto
    from um assms(3) have "0 \<le> u" "0 \<le> m" by fastforce+
    with row len [OF um] show "length row = ncols ?X" by simp
  qed
  show ?thesis
    using X row wf by (intro exI [of _ ?X]) simp
qed

theorem create_learning_matrices_rows_witness:
  "0 < length example_store \<and> wf_matrix (example_store ! 0) \<and>
   list_all (\<lambda>(u, m). 0 \<le> u \<and> u < int (nrows (example_store ! 0)) \<and>
                      0 \<le> m \<and> m < int (ncols (example_store ! 0))) example_pairs \<and>
   (\<exists>X. deref (create_learning_matrices 0 example_pairs example_store) = Inr X \<and>
      nrows X = 2 \<and> ncols X = 4 \<and> row_of X 0 = [5, 0, 0, 3] \<and> row_of X 1 = [0, 3, 5, 0])"
proof -
  have a: "0 < length example_store"
    by (simp add: example_store_def)
  have b: "wf_matrix (example_store ! 0)"
    by (simp add: example_store_def wf_matrix_def)
  have c: "\<forall>(u, m) \<in> set example_pairs.
      0 \<le> u \<and> u < int (nrows (example_store ! 0)) \<and>
      0 \<le> m \<and> m < int (ncols (example_store ! 0))"
    by (simp add: example_store_def example_pairs_def)
  have c': "list_all (\<lambda>(u, m). 0 \<le> u \<and> u < int (nrows (example_store ! 0)) \<and>
                      0 \<le> m \<and> m < int (ncols (example_store ! 0))) example_pairs"
    by (simp add: example_store_def example_pairs_def)
  obtain X where X: "deref (create_learning_matrices 0 example_pairs example_store) = Inr X"
    and shape: "nrows X = length example_pairs"
      "ncols X = nrows (example_store ! 0) + ncols (example_store ! 0)"
    and rows: "\<forall>i < length example_pairs. row_of X i =
        row_of (example_store ! 0) (nat (fst (example_pairs ! i))) @
        col_of (example_store ! 0) (nat (snd (example_pairs ! i)))"
    using create_learning_matrices_rows [OF a b c] by blast
  from shape have s: "nrows X = 2" "ncols X = 4"
    by (simp_all add: example_store_def example_pairs_def)
  from rows have "row_of X 0 = row_of (example_store ! 0) (nat (fst (example_pairs ! 0))) @
        col_of (example_store ! 0) (nat (snd (example_pairs ! 0)))"
    by (simp add: example_pairs_def)
  then have r0: "row_of X 0 = [5, 0, 0, 3]"
    by (simp add: example_store_def example_pairs_def row_of_def col_of_def)
  from rows have "row_of X 1 = row_of (example_store ! 0) (nat (fst (example_pairs ! 1))) @
        col_of (example_store ! 0) (nat (snd (example_pairs ! 1)))"
    by (simp add: example_pairs_def)
  then have r1: "row_of X 1 = [0, 3, 5, 0]"
    by (simp add: example_store_def example_pairs_def row_of_def col_of_def)
  from a b c' X s r0 r1 show ?thesis by blast
qed

text \<open>
  C4 says that any index outside the dimensions of \<open>R\<close> makes the call fail and that no
  index is ever wrapped. It is not so for a negative index: on a 2 by 2 matrix the query
  pair \<open>(-1, 0)\<close> does not fail, it is served with row \<open>1\<close> (the last row) of \<open>R\<close>.
\<close>

theorem create_learning_matrices_negative_index_counterexample:
  "fst (hd negative_pairs) < 0 \<and>
   deref (create_learning_matrices 0 negative_pairs example_store) =
     Inr \<lparr>format = CSR, nrows = 1, ncols = 4, dense = [[0, 3, 5, 0]]\<rparr>"
  by (simp add: negative_pairs_def example_store_def create_learning_matrices_def
      tocsr_def tocsc_def getitem_rows_def getitem_cols_def asindices_def transpose_sp_def
      hstack_def alloc_def Let_def)

text \<open>
  C4, amended. When some \<open>u_i\<close> is \<open>\<ge> n_users\<close> or \<open>< -n_users\<close>, or some \<open>m_i\<close> is
  \<open>\<ge> n_movies\<close> or \<open>< -n_movies\<close>, the call fails with an out-of-range indexing error.
  Otherwise it returns, no index is clipped, a non-negative index names its own row or
  column, and a negative index \<open>-k\<close> is read from the end (row or column \<open>n - k\<close>), as
  Python indexing does.
\<close>

theorem create_learning_matrices_index_error:
  assumes "r < length h"
  shows "((\<exists>(u, m) \<in> set pairs.
             u < - int (nrows (h ! r)) \<or> int (nrows (h ! r)) \<le> u \<or>
             m < - int (ncols (h ! r)) \<or> int (ncols (h ! r)) \<le> m)
          \<longrightarrow> deref (create_learning_matrices r pairs h) = Inl IndexError) \<and>
         ((\<forall>(u, m) \<in> set pairs.
             - int (nrows (h ! r)) \<le> u \<and> u < int (nrows (h ! r)) \<and>
             - int (ncols (h ! r)) \<le> m \<and> m < int (ncols (h ! r)))
          \<longrightarrow> (\<exists>X. deref (create_learning_matrices r pairs h) = Inr X \<and>
                (\<forall>i < length pairs.
                   row_of X i =
                     row_of (h ! r)
                       (nat (if fst (pairs ! i) < 0 then fst (pairs ! i) + int (nrows (h ! r))
                             else fst (pairs ! i))) @
                     col_of (h ! r)
                       (nat (if snd (pairs ! i) < 0 then snd (pairs ! i) + int (ncols (h ! r))
                             else snd (pairs ! i))))))"
proof (intro conjI impI)
  assume "\<exists>(u, m) \<in> set pairs.
             u < - int (nrows (h ! r)) \<or> int (nrows (h ! r)) \<le> u \<or>
             m < - int (ncols (h ! r)) \<or> int (ncols (h ! r)) \<le> m"
  then obtain u m where "(u, m) \<in> set pairs"
    and "u < - int (nrows (h ! r)) \<or> int (nrows (h ! r)) \<le> u \<or>
         m < - int (ncols (h ! r)) \<or> int (ncols (h ! r)) \<le> m"
    by auto
  then show "deref (create_learning_matrices r pairs h) = Inl IndexError"
    using create_learning_matrices_deref [OF assms] learning_matrix_of_out_of_range by metis
next
  assume range: "\<forall>(u, m) \<in> set pairs.
             - int (nrows (h ! r)) \<le> u \<and> u < int (nrows (h ! r)) \<and>
             - int (ncols (h ! r)) \<le> m \<and> m < int (ncols (h ! r))"
  show "\<exists>X. deref (create_learning_matrices r pairs h) = Inr X \<and>
                (\<forall>i < length pairs.
                   row_of X i =
                     row_of (h ! r)
                       (nat (if fst (pairs ! i) < 0 then fst (pairs ! i) + int (nrows (h ! r))
                             else fst (pairs ! i))) @
                     col_of (h ! r)
                       (nat (if snd (pairs ! i) < 0 then snd (pairs ! i) + int (ncols (h ! r))
                             else snd (pairs ! i))))"
    unfolding create_learning_matrices_deref [OF assms] learning_matrix_of_in_range [OF range]
    by (simp add: row_of_def case_prod_beta)
qed

theorem create_learning_matrices_index_error_witness:
  "0 < length example_store \<and>
   deref (create_learning_matrices 0 out_of_range_pairs example_store) = Inl IndexError \<and>
   (\<exists>X. deref (create_learning_matrices 0 negative_pairs example_store) = Inr X \<and>
      row_of X 0 = [0, 3, 5, 0])"
proof -
  have a: "0 < length example_store"
    by (simp add: example_store_def)
  have bad: "\<exists>(u, m) \<in> set out_of_range_pairs.
             u < - int (nrows (example_store ! 0)) \<or> int (nrows (example_store ! 0)) \<le> u \<or>
             m < - int (ncols (example_store ! 0)) \<or> int (ncols (example_store ! 0)) \<le> m"
    by (simp add: out_of_range_pairs_def example_store_def)
  have good: "\<forall>(u, m) \<in> set negative_pairs.
             - int (nrows (example_store ! 0)) \<le> u \<and> u < int (nrows (example_store ! 0)) \<and>
             - int (ncols (example_store ! 0)) \<le> m \<and> m < int (ncols (example_store ! 0))"
    by (simp add: negative_pairs_def example_store_def)
  have e: "deref (create_learning_matrices 0 out_of_range_pairs example_store) = Inl IndexError"
    using create_learning_matrices_index_error [OF a, of out_of_range_pairs] bad by blast
  obtain X where X: "deref (create_learning_matrices 0 negative_pairs example_store) = Inr X"
    and rows: "\<forall>i < length negative_pairs.
         row_of X i =
           row_of (example_store ! 0)
             (nat (if fst (negative_pairs ! i) < 0
                   then fst (negative_pairs ! i) + int (nrows (example_store ! 0))
                   else fst (negative_pairs ! i))) @
           col_of (example_store ! 0)
             (nat (if snd (negative_pairs ! i) < 0
                   then snd (negative_pairs ! i) + int (ncols (example_store ! 0))
                   else snd (negative_pairs ! i)))"
    using create_learning_matrices_index_error [OF a, of negative_pairs] good by blast
  from rows have "row_of X 0 = [0, 3, 5, 0]"
    by (simp add: negative_pairs_def example_store_def row_of_def col_of_def)
  with a e X show ?thesis by blast
qed

text \<open>
  C5. The rating matrix built from the triplets \<open>(0, 0, 5), (1, 1, 3)\<close> is the 2 by 2 matrix
  \<open>[[5, 0], [0, 3]]\<close> (object \<open>1\<close> of the store the call leaves, \<open>example_rating_store\<close>),
  and for the query pairs
  \<open>(0, 1), (1, 0)\<close> \<open>create_learning_matrices\<close> on it returns the two rows \<open>[5, 0, 0, 3]\<close>
  and \<open>[0, 3, 5, 0]\<close>, in that order.
\<close>

theorem worked_example:
  "build_rating_matrix (Int64Array example_triplets) [] = (Inr 1, example_rating_store) \<and>
   example_rating_store ! 1 =
     \<lparr>format = CSR, nrows = 2, ncols = 2, dense = [[5, 0], [0, 3]]\<rparr> \<and>
   deref (create_learning_matrices 1 example_pairs example_rating_store) =
     Inr \<lparr>format = CSR, nrows = 2, ncols = 4, dense = [[5, 0, 0, 3], [0, 3, 5, 0]]\<rparr>"
proof -
  have b: "build_rating_matrix (Int64Array example_triplets) [] = (Inr 1, example_rating_store)"
    by (simp add: example_triplets_def example_rating_store_def build_rating_matrix_def
        coo_matrix_def tocsr_def alloc_def Let_def upt_rec)
  have R: "example_rating_store ! 1 =
     \<lparr>format = CSR, nrows = 2, ncols = 2, dense = [[5, 0], [0, 3]]\<rparr>"
    by (simp add: example_rating_store_def)
  have c: "deref (create_learning_matrices 1 example_pairs example_rating_store) =
     Inr \<lparr>format = CSR, nrows = 2, ncols = 4, dense = [[5, 0, 0, 3], [0, 3, 5, 0]]\<rparr>"
    by (simp add: example_pairs_def example_rating_store_def create_learning_matrices_def
      tocsr_def tocsc_def getitem_rows_def getitem_cols_def asindices_def transpose_sp_def
      hstack_def alloc_def Let_def upt_rec)
  from b R c show ?thesis by (intro conjI)
qed

lemma permutation_facts:
  assumes "mset p = mset [0..<n]"
  shows "set p = {0..<n}" and "length p = n"
proof -
  show "set p = {0..<n}" using mset_eq_setD [OF assms] by simp
  show "length p = n" using mset_eq_length [OF assms] by simp
qed

lemma map_nth_permuted:
  assumes "set p \<subseteq> {0..<length xs}"
  shows "map f (map ((!) xs) p) = map ((!) (map f xs)) p"
  using assms by (induction p) auto

lemma asindices_permuted:
  assumes "mset p = mset [0..<length idx]"
  shows "asindices (map ((!) idx) p) n =
     (case asindices idx n of Inl e \<Rightarrow> Inl e | Inr is \<Rightarrow> Inr (map ((!) is) p))"
proof -
  note pf = permutation_facts [OF assms]
  have same_set: "set (map ((!) idx) p) = set idx"
    using pf(1) nth_image [of "length idx" idx] by simp
  have empty: "map ((!) idx) p = [] \<longleftrightarrow> idx = []"
    using pf(2) by auto
  have sub: "set p \<subseteq> {0..<length idx}" using pf(1) by simp
  have norm: "map (\<lambda>x. nat (if x < 0 then x + int n else x)) (map ((!) idx) p) =
      map ((!) (map (\<lambda>x. nat (if x < 0 then x + int n else x)) idx)) p"
    by (rule map_nth_permuted [OF sub])
  show ?thesis
    unfolding asindices_def same_set empty norm
    using pf(2) by auto
qed

lemma learning_matrix_of_permuted:
  assumes "mset p = mset [0..<length pairs]"
  shows "learning_matrix_of R (map ((!) pairs) p) =
     (case learning_matrix_of R pairs of
        Inl e \<Rightarrow> Inl e
      | Inr X \<Rightarrow> Inr (X\<lparr>dense := map ((!) (dense X)) p\<rparr>))"
proof -
  note pf = permutation_facts [OF assms]
  have sub: "set p \<subseteq> {0..<length pairs}" using pf(1) by simp
  have pu: "mset p = mset [0..<length (map fst pairs)]"
    and pm: "mset p = mset [0..<length (map snd pairs)]"
    using assms by simp_all
  have rows: "map2 f (map ((!) us) p) (map ((!) ms) p) = map ((!) (map2 f us ms)) p"
    if "length us = length pairs" "length ms = length pairs" for f :: "nat \<Rightarrow> nat \<Rightarrow> 'a list" and us ms
    using that sub by (intro nth_equalityI) (auto simp: subset_iff)
  show ?thesis
    unfolding learning_matrix_of_def map_nth_permuted [OF sub]
      asindices_permuted [OF pu] asindices_permuted [OF pm]
    by (auto simp: pf(2) rows split: sum.splits dest!: asindices_length)
qed

text \<open>
  C6. For every permutation of the query pairs (given by the list \<open>p\<close> of the positions
  taken, a rearrangement of \<open>0, ..., n - 1\<close>), \<open>create_learning_matrices\<close> on the permuted
  pairs returns the rows of the original result permuted in the same way; when the original
  call fails, the permuted call fails with the same error.
\<close>

theorem create_learning_matrices_permutation:
  assumes "r < length h" and "mset p = mset [0..<length pairs]"
  shows "deref (create_learning_matrices r (map ((!) pairs) p) h) =
     (case deref (create_learning_matrices r pairs h) of
        Inl e \<Rightarrow> Inl e
      | Inr X \<Rightarrow> Inr (X\<lparr>dense := map ((!) (dense X)) p\<rparr>))"
  unfolding create_learning_matrices_deref [OF assms(1)]
  by (rule learning_matrix_of_permuted [OF assms(2)])

theorem create_learning_matrices_permutation_witness:
  "0 < length example_store \<and>
   mset example_permutation = mset [0..<length example_pairs] \<and>
   map ((!) example_pairs) example_permutation = [(1, 0), (0, 1)] \<and>
   deref (create_learning_matrices 0 example_pairs example_store) =
     Inr \<lparr>format = CSR, nrows = 2, ncols = 4, dense = [[5, 0, 0, 3], [0, 3, 5, 0]]\<rparr> \<and>
   deref (create_learning_matrices 0 (map ((!) example_pairs) example_permutation) example_store) =
     Inr \<lparr>format = CSR, nrows = 2, ncols = 4, dense = [[0, 3, 5, 0], [5, 0, 0, 3]]\<rparr>"
proof -
  have a: "0 < length example_store"
    by (simp add: example_store_def)
  have b: "mset example_permutation = mset [0..<length example_pairs]"
    by (simp add: example_permutation_def example_pairs_def upt_rec)
  have c: "map ((!) example_pairs) example_permutation = [(1, 0), (0, 1)]"
    by (simp add: example_permutation_def example_pairs_def)
  have d: "deref (create_learning_matrices 0 example_pairs example_store) =
     Inr \<lparr>format = CSR, nrows = 2, ncols = 4, dense = [[5, 0, 0, 3], [0, 3, 5, 0]]\<rparr>"
    by (simp add: example_pairs_def example_store_def create_learning_matrices_def
      tocsr_def tocsc_def getitem_rows_def getitem_cols_def asindices_def transpose_sp_def
      hstack_def alloc_def Let_def upt_rec)
  have e: "deref (create_learning_matrices 0 (map ((!) example_pairs) example_permutation)
        example_store) =
     Inr \<lparr>format = CSR, nrows = 2, ncols = 4, dense = [[0, 3, 5, 0], [5, 0, 0, 3]]\<rparr>"
    unfolding create_learning_matrices_permutation [OF a b] d
    by (simp add: example_permutation_def)
  from a b c d e show ?thesis by blast
qed

text \<open>
  C9. \<open>create_learning_matrices\<close> only reads its rating matrix: every object that was in
  the store before the call, the rating matrix among them, is the same after it, and a
  second call on the same arguments returns the same result as the first.
\<close>

theorem create_learning_matrices_pure:
  assumes "r < length h"
  shows "take (length h) (snd (create_learning_matrices r pairs h)) = h \<and>
         snd (create_learning_matrices r pairs h) ! r = h ! r \<and>
         deref (create_learning_matrices r pairs (snd (create_learning_matrices r pairs h))) =
           deref (create_learning_matrices r pairs h)"
proof -
  obtain ys where ys: "snd (create_learning_matrices r pairs h) = h @ ys"
    using create_learning_matrices_frame by blast
  have r': "r < length (h @ ys)" using assms by simp
  have same: "(h @ ys) ! r = h ! r" using assms by (simp add: nth_append)
  show ?thesis
    unfolding ys create_learning_matrices_deref [OF r'] create_learning_matrices_deref [OF assms]
    using same by simp
qed

theorem create_learning_matrices_pure_witness:
  "0 < length example_store \<and>
   take (length example_store)
     (snd (create_learning_matrices 0 example_pairs example_store)) = example_store \<and>
   snd (create_learning_matrices 0 example_pairs example_store) ! 0 =
     \<lparr>format = CSR, nrows = 2, ncols = 2, dense = [[5, 0], [0, 3]]\<rparr> \<and>
   deref (create_learning_matrices 0 example_pairs
            (snd (create_learning_matrices 0 example_pairs example_store))) =
     Inr \<lparr>format = CSR, nrows = 2, ncols = 4, dense = [[5, 0, 0, 3], [0, 3, 5, 0]]\<rparr>"
proof -
  have a: "0 < length example_store"
    by (simp add: example_store_def)
  have d: "deref (create_learning_matrices 0 example_pairs example_store) =
     Inr \<lparr>format = CSR, nrows = 2, ncols = 4, dense = [[5, 0, 0, 3], [0, 3, 5, 0]]\<rparr>"
    by (simp add: example_pairs_def example_store_def create_learning_matrices_def
      tocsr_def tocsc_def getitem_rows_def getitem_cols_def asindices_def transpose_sp_def
      hstack_def alloc_def Let_def upt_rec)
  have e: "example_store ! 0 = \<lparr>format = CSR, nrows = 2, ncols = 2, dense = [[5, 0], [0, 3]]\<rparr>"
    by (simp add: example_store_def)
  show ?thesis
    using create_learning_matrices_pure [OF a, of example_pairs] a
    unfolding d e by simp
qed

section \<open>\<open>make_submission\<close>: what it writes\<close>

lemma format_d_examples:
  "format_d 0 = ''0''" "format_d 120 = ''120''" "format_d (- 45) = ''-45''"
  by (simp_all add: format_d_def str_nat.simps)

lemma write_predictions_result:
  "write_predictions isnan str xs written =
     (if \<exists>x \<in> set xs. isnan (snd x) then Inl ValueError else Inr (),
      written @ concat (map (format_line str) (takeWhile (\<lambda>x. \<not> isnan (snd x)) xs)))"
  by (induction xs arbitrary: written) auto

lemma make_submission_result:
  "make_submission isnan str now y_predict user_movie_ids file_name date fs =
     (if \<exists>x \<in> set (zip user_movie_ids y_predict). isnan (snd x) then Inl ValueError
      else Inr ((if date then file_name @ ''_'' @ now else file_name) @ ''.txt''),
      fs((if date then file_name @ ''_'' @ now else file_name) @ ''.txt'' \<mapsto>
         (CHR 0x22 # ''USER_ID_MOVIE_ID'' @ CHR 0x22 # '','' @ CHR 0x22 # ''PREDICTED_RATING'' @
                   [CHR 0x22, CHR 0x0A]) @ concat (map (format_line str)
           (takeWhile (\<lambda>x. \<not> isnan (snd x)) (zip user_movie_ids y_predict)))))"
  unfolding make_submission_def write_predictions_result Let_def header_def by simp

lemma set_snd_zip:
  "length xs = length ys \<Longrightarrow> (\<exists>x \<in> set (zip xs ys). P (snd x)) \<longleftrightarrow> (\<exists>y \<in> set ys. P y)"
  by (induction xs ys rule: list_induct2) auto

text \<open>
  C8. For \<open>n\<close> predictions aligned with \<open>n\<close> (user id, movie id) pairs: when no prediction is
  not-a-number, \<open>make_submission\<close> returns the path and the file holds the header line
  \<open>"USER_ID_MOVIE_ID","PREDICTED_RATING"\<close> followed by exactly \<open>n\<close> lines, line \<open>i + 1\<close>
  being \<open>{user_id_i}_{movie_id_i},{prediction_i}\<close>, in input order; when some prediction is
  not-a-number it raises \<open>ValueError\<close>, and neither that prediction nor any later one is
  written. The header line is written out character by character: \<open>CHR 0x22\<close> is the
  double quote and \<open>CHR 0x0A\<close> the end of the line.
\<close>

theorem make_submission_contract:
  assumes "length y_predict = length user_movie_ids"
  shows "((\<forall>p \<in> set y_predict. \<not> isnan p) \<longrightarrow>
            make_submission isnan str now y_predict user_movie_ids file_name date fs =
              (Inr ((if date then file_name @ ''_'' @ now else file_name) @ ''.txt''),
               fs((if date then file_name @ ''_'' @ now else file_name) @ ''.txt'' \<mapsto>
                 (CHR 0x22 # ''USER_ID_MOVIE_ID'' @ CHR 0x22 # '','' @ CHR 0x22 # ''PREDICTED_RATING'' @
                   [CHR 0x22, CHR 0x0A]) @ concat (map (\<lambda>i.
                     format_d (fst (user_movie_ids ! i)) @ ''_'' @
                     format_d (snd (user_movie_ids ! i)) @ '','' @
                     str (y_predict ! i) @ [CHR 0x0A])
                   [0..<length y_predict])))) \<and>
         ((\<exists>p \<in> set y_predict. isnan p) \<longrightarrow>
            make_submission isnan str now y_predict user_movie_ids file_name date fs =
              (Inl ValueError,
               fs((if date then file_name @ ''_'' @ now else file_name) @ ''.txt'' \<mapsto>
                 (CHR 0x22 # ''USER_ID_MOVIE_ID'' @ CHR 0x22 # '','' @ CHR 0x22 # ''PREDICTED_RATING'' @
                   [CHR 0x22, CHR 0x0A]) @ concat (map (format_line str)
                   (takeWhile (\<lambda>x. \<not> isnan (snd x)) (zip user_movie_ids y_predict))))))"
proof (intro conjI impI)
  assume clean: "\<forall>p \<in> set y_predict. \<not> isnan p"
  have no_nan: "\<not> (\<exists>x \<in> set (zip user_movie_ids y_predict). isnan (snd x))"
    using clean set_snd_zip [OF assms [symmetric], of isnan] by simp
  then have all: "takeWhile (\<lambda>x. \<not> isnan (snd x)) (zip user_movie_ids y_predict) =
      zip user_movie_ids y_predict"
    by (simp add: takeWhile_eq_all_conv)
  have lines: "map (format_line str) (zip user_movie_ids y_predict) =
      map (\<lambda>i. format_d (fst (user_movie_ids ! i)) @ ''_'' @
                format_d (snd (user_movie_ids ! i)) @ '','' @
                str (y_predict ! i) @ [CHR 0x0A]) [0..<length y_predict]"
    using assms by (intro nth_equalityI) (simp_all add: format_line_def case_prod_beta)
  show "make_submission isnan str now y_predict user_movie_ids file_name date fs =
              (Inr ((if date then file_name @ ''_'' @ now else file_name) @ ''.txt''),
               fs((if date then file_name @ ''_'' @ now else file_name) @ ''.txt'' \<mapsto>
                 (CHR 0x22 # ''USER_ID_MOVIE_ID'' @ CHR 0x22 # '','' @ CHR 0x22 # ''PREDICTED_RATING'' @
                   [CHR 0x22, CHR 0x0A]) @ concat (map (\<lambda>i.
                     format_d (fst (user_movie_ids ! i)) @ ''_'' @
                     format_d (snd (user_movie_ids ! i)) @ '','' @
                     str (y_predict ! i) @ [CHR 0x0A])
                   [0..<length y_predict])))"
    unfolding make_submission_result all lines [symmetric] using no_nan by simp
next
  assume "\<exists>p \<in> set y_predict. isnan p"
  then have nan: "\<exists>x \<in> set (zip user_movie_ids y_predict). isnan (snd x)"
    using set_snd_zip [OF assms [symmetric], of isnan] by simp
  show "make_submission isnan str now y_predict user_movie_ids file_name date fs =
              (Inl ValueError,
               fs((if date then file_name @ ''_'' @ now else file_name) @ ''.txt'' \<mapsto>
                 (CHR 0x22 # ''USER_ID_MOVIE_ID'' @ CHR 0x22 # '','' @ CHR 0x22 # ''PREDICTED_RATING'' @
                   [CHR 0x22, CHR 0x0A]) @ concat (map (format_line str)
                   (takeWhile (\<lambda>x. \<not> isnan (snd x)) (zip user_movie_ids y_predict)))))"
    unfolding make_submission_result using nan by simp
qed

theorem make_submission_contract_witness:
  "length example_predictions = length example_ids \<and>
   list_all (\<lambda>p. \<not> fst p) example_predictions \<and>
   make_submission fst snd ''04-11-2026_10h04'' example_predictions example_ids
       ''submission'' False Map.empty =
     (Inr ''submission.txt'',
      [''submission.txt'' \<mapsto> (CHR 0x22 # ''USER_ID_MOVIE_ID'' @ CHR 0x22 # '','' @ CHR 0x22 # ''PREDICTED_RATING'' @
                   [CHR 0x22, CHR 0x0A]) @ ''0_0,4.2'' @ [CHR 0x0A] @ ''1_1,3.7'' @ [CHR 0x0A]]) \<and>
   list_ex fst nan_predictions \<and>
   make_submission fst snd ''04-11-2026_10h04'' nan_predictions example_ids
       ''submission'' False Map.empty =
     (Inl ValueError, [''submission.txt'' \<mapsto> (CHR 0x22 # ''USER_ID_MOVIE_ID'' @ CHR 0x22 # '','' @ CHR 0x22 # ''PREDICTED_RATING'' @
                   [CHR 0x22, CHR 0x0A]) @ ''0_0,4.2'' @ [CHR 0x0A]])"
proof -
  have a: "length example_predictions = length example_ids"
    by (simp add: example_predictions_def example_ids_def)
  have a': "length nan_predictions = length example_ids"
    by (simp add: nan_predictions_def example_ids_def)
  have clean: "\<forall>p \<in> set example_predictions. \<not> fst p"
    by (simp add: example_predictions_def)
  have clean': "list_all (\<lambda>p. \<not> fst p) example_predictions"
    by (simp add: example_predictions_def)
  have nan: "\<exists>p \<in> set nan_predictions. fst p"
    by (simp add: nan_predictions_def)
  have nan': "list_ex fst nan_predictions"
    by (simp add: nan_predictions_def)
  have ok: "make_submission fst snd ''04-11-2026_10h04'' example_predictions example_ids
       ''submission'' False Map.empty =
     (Inr ''submission.txt'',
      [''submission.txt'' \<mapsto> (CHR 0x22 # ''USER_ID_MOVIE_ID'' @ CHR 0x22 # '','' @ CHR 0x22 # ''PREDICTED_RATING'' @
                   [CHR 0x22, CHR 0x0A]) @ ''0_0,4.2'' @ [CHR 0x0A] @ ''1_1,3.7'' @ [CHR 0x0A]])"
    using make_submission_contract [OF a, of fst snd "''04-11-2026_10h04''" "''submission''"
        False Map.empty] clean
    by (simp add: example_predictions_def example_ids_def format_d_def str_nat.simps upt_rec)
  have bad: "make_submission fst snd ''04-11-2026_10h04'' nan_predictions example_ids
       ''submission'' False Map.empty =
     (Inl ValueError, [''submission.txt'' \<mapsto> (CHR 0x22 # ''USER_ID_MOVIE_ID'' @ CHR 0x22 # '','' @ CHR 0x22 # ''PREDICTED_RATING'' @
                   [CHR 0x22, CHR 0x0A]) @ ''0_0,4.2'' @ [CHR 0x0A]])"
    using make_submission_contract [OF a', of fst snd "''04-11-2026_10h04''" "''submission''"
        False Map.empty] nan
    by (simp add: nan_predictions_def example_ids_def format_line_def format_d_def
        str_nat.simps)
  from a clean' ok nan' bad show ?thesis by (intro conjI)
qed

text \<open>
  C10 says that the call raises whenever some prediction is not-a-number. It is not so when
  there are too few (user id, movie id) pairs: the loop runs over the pairs and predictions
  zipped together, so with one pair and the predictions \<open>4.2, nan\<close> the not-a-number
  prediction at position \<open>1\<close> is never reached and the call returns normally.
\<close>

theorem make_submission_misaligned_counterexample:
  "fst (nan_predictions ! 1) \<and> \<not> fst (nan_predictions ! 0) \<and>
   make_submission fst snd ''04-11-2026_10h04'' nan_predictions misaligned_ids
       ''submission'' False Map.empty =
     (Inr ''submission.txt'',
      [''submission.txt'' \<mapsto> (CHR 0x22 # ''USER_ID_MOVIE_ID'' @ CHR 0x22 # '','' @ CHR 0x22 # ''PREDICTED_RATING'' @
                   [CHR 0x22, CHR 0x0A]) @ ''0_0,4.2'' @ [CHR 0x0A]])"
  by (simp add: nan_predictions_def misaligned_ids_def make_submission_def header_def
      format_line_def format_d_def str_nat.simps Let_def)

text \<open>
  C10, amended. \<open>make_submission\<close> is not atomic on error: when the first not-a-number
  prediction is at position \<open>i\<close> and there are more than \<open>i\<close> (user id, movie id) pairs (as
  there are when the pairs are aligned with the predictions), the call raises \<open>ValueError\<close>
  and the file exists and holds the header line
  \<open>"USER_ID_MOVIE_ID","PREDICTED_RATING"\<close> followed by the lines of the predictions at
  positions \<open>0\<close> to \<open>i - 1\<close>.
\<close>

theorem make_submission_partial_file:
  assumes "i < length y_predict" and "i < length user_movie_ids"
    and "isnan (y_predict ! i)"
    and "\<forall>j < i. \<not> isnan (y_predict ! j)"
  shows "make_submission isnan str now y_predict user_movie_ids file_name date fs =
           (Inl ValueError,
            fs((if date then file_name @ ''_'' @ now else file_name) @ ''.txt'' \<mapsto>
              (CHR 0x22 # ''USER_ID_MOVIE_ID'' @ CHR 0x22 # '','' @ CHR 0x22 # ''PREDICTED_RATING'' @
                   [CHR 0x22, CHR 0x0A]) @ concat (map (\<lambda>j.
                  format_d (fst (user_movie_ids ! j)) @ ''_'' @
                  format_d (snd (user_movie_ids ! j)) @ '','' @
                  str (y_predict ! j) @ [CHR 0x0A])
                [0..<i])))"
proof -
  let ?xs = "zip user_movie_ids y_predict"
  have len: "i < length ?xs" using assms(1,2) by simp
  have at_i: "isnan (snd (?xs ! i))" using assms(1-3) by simp
  then have nan: "\<exists>x \<in> set ?xs. isnan (snd x)"
    using len nth_mem by blast
  have before: "\<not> isnan (snd (?xs ! j))" if "j < i" for j
    using that assms(1,2,4) by simp
  have prefix: "takeWhile (\<lambda>x. \<not> isnan (snd x)) ?xs = take i ?xs"
  proof (rule takeWhile_eq_take_P_nth)
    fix j assume "j < i"
    then show "\<not> isnan (snd (?xs ! j))" by (rule before)
  next
    show "\<not> \<not> isnan (snd (?xs ! i))" using at_i by simp
  qed
  have lines: "map (format_line str) (take i ?xs) =
      map (\<lambda>j. format_d (fst (user_movie_ids ! j)) @ ''_'' @
                format_d (snd (user_movie_ids ! j)) @ '','' @
                str (y_predict ! j) @ [CHR 0x0A]) [0..<i]"
    using assms(1,2) by (intro nth_equalityI) (simp_all add: format_line_def case_prod_beta)
  show ?thesis
    unfolding make_submission_result prefix lines using nan by simp
qed

theorem make_submission_partial_file_witness:
  "1 < length nan_predictions \<and> 1 < length example_ids \<and> fst (nan_predictions ! 1) \<and>
   \<not> fst (nan_predictions ! 0) \<and>
   make_submission fst snd ''04-11-2026_10h04'' nan_predictions example_ids
       ''submission'' True Map.empty =
     (Inl ValueError,
      [''submission_04-11-2026_10h04.txt'' \<mapsto> (CHR 0x22 # ''USER_ID_MOVIE_ID'' @ CHR 0x22 # '','' @ CHR 0x22 # ''PREDICTED_RATING'' @
                   [CHR 0x22, CHR 0x0A]) @ ''0_0,4.2'' @ [CHR 0x0A]])"
proof -
  have a: "1 < length nan_predictions"
    by (simp add: nan_predictions_def)
  have b: "1 < length example_ids"
    by (simp add: example_ids_def)
  have c: "fst (nan_predictions ! 1)"
    by (simp add: nan_predictions_def)
  have d: "\<forall>j < 1. \<not> fst (nan_predictions ! j)"
    by (simp add: nan_predictions_def)
  have d': "\<not> fst (nan_predictions ! 0)"
    by (simp add: nan_predictions_def)
  have e: "make_submission fst snd ''04-11-2026_10h04'' nan_predictions example_ids
       ''submission'' True Map.empty =
     (Inl ValueError,
      [''submission_04-11-2026_10h04.txt'' \<mapsto> (CHR 0x22 # ''USER_ID_MOVIE_ID'' @ CHR 0x22 # '','' @ CHR 0x22 # ''PREDICTED_RATING'' @
                   [CHR 0x22, CHR 0x0A]) @ ''0_0,4.2'' @ [CHR 0x0A]])"
    using make_submission_partial_file [OF a b c d, of snd "''04-11-2026_10h04''"
        "''submission''" True Map.empty]
    by (simp add: nan_predictions_def example_ids_def format_d_def str_nat.simps)
  from a b c d' e show ?thesis by (intro conjI)
qed

end
